theory Spec2Isabelle
  imports Main "HOL-Library.Sublist"
begin

section \<open>Python values, strings and the standard-library calls the launcher makes\<close>

text \<open>
  The program is \<^verbatim>\<open>src/bin/__main__.py\<close>. A Python \<^verbatim>\<open>str\<close> is modelled as a
  \<^typ>\<open>string\<close>; each \<^typ>\<open>char\<close> stands for one code point in the range U+0000..U+00FF.
  The option values that \<^verbatim>\<open>argparse\<close> can store for this schema are \<^verbatim>\<open>None\<close>, a
  \<^verbatim>\<open>bool\<close> (the \<^verbatim>\<open>store_true\<close> flags), an \<^verbatim>\<open>int\<close>, a \<^verbatim>\<open>float\<close>, a \<^verbatim>\<open>str\<close> and,
  for \<^verbatim>\<open>-profile\<close>, a list whose members are among the five declared choices. Floats are
  kept abstract (type \<open>'f\<close>): the text Python prints for one is a parameter \<open>fstr\<close> of
  every function that renders values.
\<close>

datatype profile = Standard | Docker | Singularity | Apptainer | Containerless

datatype 'f pyvalue =
    VNone
  | VBool bool
  | VInt int
  | VFloat 'f
  | VStr string
  | VProfiles "profile list"

type_synonym 'f namespace = "(string \<times> 'f pyvalue) list"

fun profile_name :: "profile \<Rightarrow> string" where
  "profile_name Standard = ''standard''"
| "profile_name Docker = ''docker''"
| "profile_name Singularity = ''singularity''"
| "profile_name Apptainer = ''apptainer''"
| "profile_name Containerless = ''containerless''"

text \<open>\<^verbatim>\<open>sep.join(xs)\<close>.\<close>

fun py_join :: "string \<Rightarrow> string list \<Rightarrow> string" where
  "py_join sep [] = []"
| "py_join sep [x] = x"
| "py_join sep (x # y # ys) = x @ sep @ py_join sep (y # ys)"

text \<open>\<^verbatim>\<open>str(n)\<close> for an integer: decimal digits, a minus sign for a negative number.\<close>

definition digit_char :: "nat \<Rightarrow> char" where
  "digit_char d = ''0123456789'' ! d"

fun digits :: "nat \<Rightarrow> string" where
  "digits n = (if n < 10 then [digit_char n] else digits (n div 10) @ [digit_char (n mod 10)])"

declare digits.simps [simp del]

definition str_int :: "int \<Rightarrow> string" where
  "str_int i = (if i < 0 then CHR ''-'' # digits (nat (- i)) else digits (nat i))"

text \<open>
  \<^verbatim>\<open>str(value)\<close>. A list prints as its members' \<^verbatim>\<open>repr\<close>, comma-separated, in brackets;
  the \<^verbatim>\<open>repr\<close> of each of the five profile names is the name in single quotes.
\<close>

definition repr_profile :: "profile \<Rightarrow> string" where
  "repr_profile p = [CHR 0x27] @ profile_name p @ [CHR 0x27]"

fun str_value :: "('f \<Rightarrow> string) \<Rightarrow> 'f pyvalue \<Rightarrow> string" where
  "str_value fstr VNone = ''None''"
| "str_value fstr (VBool b) = (if b then ''True'' else ''False'')"
| "str_value fstr (VInt i) = str_int i"
| "str_value fstr (VFloat x) = fstr x"
| "str_value fstr (VStr s) = s"
| "str_value fstr (VProfiles ps) = ''['' @ py_join '', '' (map repr_profile ps) @ '']''"

text \<open>
  \<^verbatim>\<open>shlex.quote\<close> of the standard library: the empty string becomes \<^verbatim>\<open>''\<close>; a string made
  of the characters \<^verbatim>\<open>[A-Za-z0-9_@%+=:,./-]\<close> only is returned as it is; any other string
  is wrapped in single quotes, each single quote inside it replaced by \<^verbatim>\<open>'"'"'\<close>.
\<close>

definition safe_chars :: string where
  "safe_chars = ''abcdefghijklmnopqrstuvwxyzABCDEFGHIJKLMNOPQRSTUVWXYZ0123456789_@%+=:,./-''"

definition safe_char :: "char \<Rightarrow> bool" where
  "safe_char c = (c \<in> set safe_chars)"

definition replace_squote :: "string \<Rightarrow> string" where
  "replace_squote s =
     concat (map (\<lambda>c. if c = CHR 0x27 then [CHR 0x27, CHR 0x22, CHR 0x27, CHR 0x22, CHR 0x27]
                       else [c]) s)"

definition quote :: "string \<Rightarrow> string" where
  "quote s =
     (if s = [] then [CHR 0x27, CHR 0x27]
      else if list_all safe_char s then s
      else [CHR 0x27] @ replace_squote s @ [CHR 0x27])"

text \<open>\<^verbatim>\<open>s.endswith(suffix)\<close>.\<close>

definition endswith :: "string \<Rightarrow> string \<Rightarrow> bool" where
  "endswith s suf = (length suf \<le> length s \<and> drop (length s - length suf) s = suf)"

text \<open>
  \<^verbatim>\<open>str.isspace\<close> on one character and \<^verbatim>\<open>s.strip()\<close>: the white space of Python in the
  modelled range is TAB, LF, VT, FF, CR, the separators U+001C..U+001F, the space, NEL
  (U+0085) and the no-break space (U+00A0).
\<close>

definition py_isspace :: "char \<Rightarrow> bool" where
  "py_isspace c =
     (c \<in> set [CHR 0x09, CHR 0x0A, CHR 0x0B, CHR 0x0C, CHR 0x0D, CHR 0x1C, CHR 0x1D, CHR 0x1E,
               CHR 0x1F, CHR 0x20, CHR 0x85, CHR 0xA0])"

definition py_strip :: "string \<Rightarrow> string" where
  "py_strip s = rev (dropWhile py_isspace (rev (dropWhile py_isspace s)))"

text \<open>
  \<^verbatim>\<open>handle.readline()\<close> on a freshly opened text file with the given content: the handle
  is opened with universal newlines, so the line ends at the first LF or CR (a CR LF pair
  counts once) and the terminator is returned as a single LF.
\<close>

fun readline :: "string \<Rightarrow> string" where
  "readline [] = []"
| "readline (c # cs) =
     (if c = CHR 0x0A \<or> c = CHR 0x0D then [CHR 0x0A] else c # readline cs)"

section \<open>Errors, the resume file and the child process\<close>

text \<open>
  An exception that leaves \<^verbatim>\<open>main\<close> is a value of \<open>error\<close>. \<^verbatim>\<open>SystemExit\<close> carries the
  message given to \<^verbatim>\<open>sys.exit\<close>; \<^verbatim>\<open>CalledProcessError\<close> carries the child's exit status.
\<close>

datatype error =
    AssertionError string
  | ValueError string
  | FileNotFoundError
  | CalledProcessError nat
  | SystemExit string

text \<open>
  The exit status of the interpreter: 0 when \<^verbatim>\<open>main\<close> returns, 1 when an exception is
  not caught, and 1 for \<^verbatim>\<open>sys.exit\<close> with a message string.
\<close>

fun exit_status :: "error + unit \<Rightarrow> nat" where
  "exit_status (Inr _) = 0"
| "exit_status (Inl _) = 1"

text \<open>
  The world the launcher acts on: the content of \<^verbatim>\<open>.nfresume\<close> in the working directory
  (\<open>None\<close> when the file does not exist), what a child process started with a given
  argument vector would do, and the effects observed so far, oldest first. The working
  directory accepts the write of the resume file.
\<close>

datatype child_result = NotFound | Exited nat

datatype event = Wrote string | Spawn "string list"

record world =
  nfresume :: "string option"
  child :: "string list \<Rightarrow> child_result"
  events :: "event list"

text \<open>Opening \<^verbatim>\<open>.nfresume\<close> with mode \<^verbatim>\<open>"w"\<close>, writing once and closing.\<close>

definition write_resume :: "string \<Rightarrow> world \<Rightarrow> world" where
  "write_resume content w = w\<lparr>nfresume := Some content, events := events w @ [Wrote content]\<rparr>"

text \<open>
  \<^verbatim>\<open>s.split(sep)\<close> with an explicit separator: an empty separator raises
  \<^verbatim>\<open>ValueError: empty separator\<close>; otherwise the string is cut at each occurrence of the
  separator, scanning from the left.
\<close>

fun split_at :: "string \<Rightarrow> string \<Rightarrow> string \<Rightarrow> string list" where
  "split_at sep tok [] = [tok]"
| "split_at sep tok (c # cs) =
     (if sep \<noteq> [] \<and> prefix sep (c # cs)
      then tok # split_at sep [] (drop (length sep - 1) cs)
      else split_at sep (tok @ [c]) cs)"

definition py_split :: "string \<Rightarrow> string \<Rightarrow> error + string list" where
  "py_split s sep =
     (if sep = [] then Inl (ValueError ''empty separator'') else Inr (split_at sep [] s))"

text \<open>
  \<^verbatim>\<open>subprocess.run(argv, check=True)\<close>: blocks until the child ends; a missing executable
  raises \<^verbatim>\<open>FileNotFoundError\<close>, a non-zero exit status raises \<^verbatim>\<open>CalledProcessError\<close>.
\<close>

definition subprocess_run :: "world \<Rightarrow> string list \<Rightarrow> (error + unit) \<times> world" where
  "subprocess_run w argv =
     (let w' = w\<lparr>events := events w @ [Spawn argv]\<rparr>
      in case child w argv of
           NotFound \<Rightarrow> (Inl FileNotFoundError, w')
         | Exited n \<Rightarrow> if n = 0 then (Inr (), w') else (Inl (CalledProcessError n), w'))"

section \<open>The command synthesizer\<close>

text \<open>
  \<^verbatim>\<open>vars(args)\<close> is a dictionary in insertion order: an association list with distinct
  keys. The loop of \<^verbatim>\<open>generate_nextflow_command\<close> appends at most one fragment per item.
\<close>

fun nextflow_params :: "('f \<Rightarrow> string) \<Rightarrow> 'f namespace \<Rightarrow> string list" where
  "nextflow_params fstr [] = []"
| "nextflow_params fstr ((arg, value) # rest) =
     (case value of
        VNone \<Rightarrow> []
      | VBool b \<Rightarrow> if b then [''--'' @ arg] else []
      | _ \<Rightarrow> [''--'' @ arg @ '' '' @ quote (str_value fstr value)])
     @ nextflow_params fstr rest"

definition generate_nextflow_command :: "('f \<Rightarrow> string) \<Rightarrow> 'f namespace \<Rightarrow> string" where
  "generate_nextflow_command fstr args =
     (let args_dict = filter (\<lambda>(k, v). k \<noteq> ''subcommands'') args;
          params_str = py_join '' '' (nextflow_params fstr args_dict)
      in ''nextflow run . '' @ params_str)"

section \<open>The run launcher and the resume launcher\<close>

definition run_nextflow :: "world \<Rightarrow> string \<Rightarrow> (error + unit) \<times> world" where
  "run_nextflow w run_command =
     (if endswith run_command ''-resume''
      then (Inr (), write_resume run_command w)
      else
        let w' = write_resume (run_command @ '' -resume'') w
        in case py_split run_command [] of
             Inl e \<Rightarrow> (Inl e, w')
           | Inr split_command \<Rightarrow> subprocess_run w' split_command)"

text \<open>
  The read step of \<^verbatim>\<open>resume_nextflow\<close> (the assertion and the \<^verbatim>\<open>readline().strip()\<close>).
  The assertion's message is the first string literal only: the second literal is a
  statement of its own.
\<close>

definition load :: "world \<Rightarrow> error + string" where
  "load w =
     (case nfresume w of
        None \<Rightarrow>
          Inl (AssertionError
                 ''Previous run not detected. Make sure you start with `oneroof run`'')
      | Some content \<Rightarrow> Inr (py_strip (readline content)))"

definition resume_nextflow :: "world \<Rightarrow> (error + unit) \<times> world" where
  "resume_nextflow w =
     (case load w of
        Inl e \<Rightarrow> (Inl e, w)
      | Inr run_command \<Rightarrow> run_nextflow w run_command)"

section \<open>The option schema and the dispatcher\<close>

text \<open>
  The options of the \<^verbatim>\<open>run\<close> subcommand, in the order of their declaration, with the
  types \<^verbatim>\<open>argparse\<close> gives them: \<open>None\<close> stands for an option that was not given,
  \<^verbatim>\<open>refseq\<close> is required, and the three \<^verbatim>\<open>store_true\<close> flags are booleans.
\<close>

record 'f run_options =
  primer_bed :: "string option"
  fwd_suffix :: "string option"
  rev_suffix :: "string option"
  refseq :: string
  ref_gbk :: "string option"
  remote_pod5_location :: "string option"
  file_watcher_config :: "string option"
  pod5_staging :: "string option"
  pod5_dir :: "string option"
  precalled_staging :: "string option"
  prepped_data :: "string option"
  illumina_fastq_dir :: "string option"
  model :: "string option"
  model_cache :: "string option"
  kit :: "string option"
  pod5_batch_size :: "int option"
  basecall_max :: "int option"
  max_len :: "int option"
  min_len :: "int option"
  min_qual :: "int option"
  secondary :: bool
  max_mismatch :: "int option"
  downsample_to :: "int option"
  min_consensus_freq :: "'f option"
  min_haplo_reads :: "int option"
  snpeff_cache :: "string option"
  min_depth_coverage :: "int option"
  nextclade_dataset :: "string option"
  nextclade_cache :: "string option"
  results :: "string option"
  cleanup :: bool
  resume :: bool
  snpEff_config :: "string option"
  profile :: "profile list option"

fun opt_str :: "string option \<Rightarrow> 'f pyvalue" where
  "opt_str None = VNone"
| "opt_str (Some s) = VStr s"

fun opt_int :: "int option \<Rightarrow> 'f pyvalue" where
  "opt_int None = VNone"
| "opt_int (Some i) = VInt i"

fun opt_float :: "'f option \<Rightarrow> 'f pyvalue" where
  "opt_float None = VNone"
| "opt_float (Some x) = VFloat x"

fun opt_profiles :: "profile list option \<Rightarrow> 'f pyvalue" where
  "opt_profiles None = VNone"
| "opt_profiles (Some ps) = VProfiles ps"

definition run_items :: "'f run_options \<Rightarrow> 'f namespace" where
  "run_items r =
     [(''primer_bed'', opt_str (primer_bed r)),
      (''fwd_suffix'', opt_str (fwd_suffix r)),
      (''rev_suffix'', opt_str (rev_suffix r)),
      (''refseq'', VStr (refseq r)),
      (''ref_gbk'', opt_str (ref_gbk r)),
      (''remote_pod5_location'', opt_str (remote_pod5_location r)),
      (''file_watcher_config'', opt_str (file_watcher_config r)),
      (''pod5_staging'', opt_str (pod5_staging r)),
      (''pod5_dir'', opt_str (pod5_dir r)),
      (''precalled_staging'', opt_str (precalled_staging r)),
      (''prepped_data'', opt_str (prepped_data r)),
      (''illumina_fastq_dir'', opt_str (illumina_fastq_dir r)),
      (''model'', opt_str (model r)),
      (''model_cache'', opt_str (model_cache r)),
      (''kit'', opt_str (kit r)),
      (''pod5_batch_size'', opt_int (pod5_batch_size r)),
      (''basecall_max'', opt_int (basecall_max r)),
      (''max_len'', opt_int (max_len r)),
      (''min_len'', opt_int (min_len r)),
      (''min_qual'', opt_int (min_qual r)),
      (''secondary'', VBool (secondary r)),
      (''max_mismatch'', opt_int (max_mismatch r)),
      (''downsample_to'', opt_int (downsample_to r)),
      (''min_consensus_freq'', opt_float (min_consensus_freq r)),
      (''min_haplo_reads'', opt_int (min_haplo_reads r)),
      (''snpeff_cache'', opt_str (snpeff_cache r)),
      (''min_depth_coverage'', opt_int (min_depth_coverage r)),
      (''nextclade_dataset'', opt_str (nextclade_dataset r)),
      (''nextclade_cache'', opt_str (nextclade_cache r)),
      (''results'', opt_str (results r)),
      (''cleanup'', VBool (cleanup r)),
      (''resume'', VBool (resume r)),
      (''snpEff_config'', opt_str (snpEff_config r)),
      (''profile'', opt_profiles (profile r))]"

text \<open>
  What a command line that \<^verbatim>\<open>argparse\<close> accepts selects: no subcommand at all (the
  subparsers are not declared as required), \<^verbatim>\<open>env\<close>, \<^verbatim>\<open>validate\<close>, \<^verbatim>\<open>resume\<close> with
  its verbosity count, or \<^verbatim>\<open>run\<close> with its options. \<open>parse_command_line_args\<close> gives the
  items of the returned namespace: \<^verbatim>\<open>subcommands\<close> first (its default is \<^verbatim>\<open>None\<close>),
  then the selected subparser's options. A command line that \<^verbatim>\<open>argparse\<close> rejects ends the
  process inside the library, before \<^verbatim>\<open>main\<close> goes on.
\<close>

datatype 'f invocation =
    NoSubcommand
  | Env
  | Validate
  | Resume nat
  | Run "'f run_options"

fun parse_command_line_args :: "'f invocation \<Rightarrow> 'f namespace" where
  "parse_command_line_args NoSubcommand = [(''subcommands'', VNone)]"
| "parse_command_line_args Env = [(''subcommands'', VStr ''env'')]"
| "parse_command_line_args Validate = [(''subcommands'', VStr ''validate'')]"
| "parse_command_line_args (Resume n) =
     [(''subcommands'', VStr ''resume''), (''verbose'', VInt (int n))]"
| "parse_command_line_args (Run r) = (''subcommands'', VStr ''run'') # run_items r"

text \<open>
  The body of \<^verbatim>\<open>main\<close> after parsing. The assertion's message is its first string
  literal; the f-string on the next line is a statement of its own.
\<close>

definition chosen_subcommand :: "'f namespace \<Rightarrow> 'f pyvalue list" where
  "chosen_subcommand args = map snd (filter (\<lambda>(k, v). k = ''subcommands'') args)"

definition main_body :: "('f \<Rightarrow> string) \<Rightarrow> 'f namespace \<Rightarrow> world \<Rightarrow> (error + unit) \<times> world" where
  "main_body fstr args w =
     (if length (chosen_subcommand args) \<noteq> 1
      then (Inl (AssertionError
             ''Invalid state registered in the form of requesting more than one or zero sub''),
            w)
      else
        let subcommand = hd (chosen_subcommand args)
        in if subcommand = VStr ''run''
           then run_nextflow w (generate_nextflow_command fstr args)
           else if subcommand = VStr ''resume''
           then resume_nextflow w
           else (Inl (SystemExit (''The subcommand '' @ str_value fstr subcommand
                                   @ '' is not yet supported but will be soon!'')), w))"

definition main :: "('f \<Rightarrow> string) \<Rightarrow> 'f invocation \<Rightarrow> world \<Rightarrow> (error + unit) \<times> world" where
  "main fstr sel w = main_body fstr (parse_command_line_args sel) w"

section \<open>Reading a command line back: the shell's word splitting\<close>

text \<open>
  The specification speaks of shell-unescaping the synthesized command. The reference
  is \<^verbatim>\<open>shlex.split\<close> of the standard library (POSIX mode, white-space splitting): words
  are separated by space, TAB, CR and LF; inside single quotes every character is
  literal; inside double quotes a backslash escapes a backslash or a double quote and
  is kept before any other character; outside quotes a backslash makes the next
  character literal. \<open>None\<close> stands for the \<^verbatim>\<open>ValueError\<close> of an open quotation or a
  dangling backslash. The state carries the word read so far and whether a quotation
  was seen in it, which is what makes an empty word count.
\<close>

datatype lex_state = Blank | InWord | InSingle | InDouble | EscWord | EscDouble

definition sh_space :: "char \<Rightarrow> bool" where
  "sh_space c = (c = CHR 0x20 \<or> c = CHR 0x09 \<or> c = CHR 0x0D \<or> c = CHR 0x0A)"

fun lex :: "lex_state \<Rightarrow> string \<Rightarrow> bool \<Rightarrow> string \<Rightarrow> string list option" where
  "lex Blank tok q [] = (if tok \<noteq> [] \<or> q then Some [tok] else Some [])"
| "lex Blank tok q (c # cs) =
     (if sh_space c
      then (if tok \<noteq> [] \<or> q then map_option ((#) tok) (lex Blank [] False cs)
            else lex Blank tok q cs)
      else if c = CHR 0x5C then lex EscWord tok q cs
      else if c = CHR 0x27 then lex InSingle tok q cs
      else if c = CHR 0x22 then lex InDouble tok q cs
      else lex InWord [c] q cs)"
| "lex InWord tok q [] = (if tok \<noteq> [] \<or> q then Some [tok] else Some [])"
| "lex InWord tok q (c # cs) =
     (if sh_space c
      then (if tok \<noteq> [] \<or> q then map_option ((#) tok) (lex Blank [] False cs)
            else lex Blank tok q cs)
      else if c = CHR 0x27 then lex InSingle tok q cs
      else if c = CHR 0x22 then lex InDouble tok q cs
      else if c = CHR 0x5C then lex EscWord tok q cs
      else lex InWord (tok @ [c]) q cs)"
| "lex InSingle tok q [] = None"
| "lex InSingle tok q (c # cs) =
     (if c = CHR 0x27 then lex InWord tok True cs else lex InSingle (tok @ [c]) True cs)"
| "lex InDouble tok q [] = None"
| "lex InDouble tok q (c # cs) =
     (if c = CHR 0x22 then lex InWord tok True cs
      else if c = CHR 0x5C then lex EscDouble tok True cs
      else lex InDouble (tok @ [c]) True cs)"
| "lex EscWord tok q [] = None"
| "lex EscWord tok q (c # cs) = lex InWord (tok @ [c]) q cs"
| "lex EscDouble tok q [] = None"
| "lex EscDouble tok q (c # cs) =
     lex InDouble ((if c \<noteq> CHR 0x5C \<and> c \<noteq> CHR 0x22 then tok @ [CHR 0x5C] else tok) @ [c]) q cs"

definition shlex_split :: "string \<Rightarrow> string list option" where
  "shlex_split s = lex Blank [] False s"

text \<open>
  The words the specification expects from one item of the option set: nothing for an
  absent option or a false flag, the name alone for a true flag, the name and the value's
  text otherwise.
\<close>

fun option_words :: "('f \<Rightarrow> string) \<Rightarrow> string \<times> 'f pyvalue \<Rightarrow> string list" where
  "option_words fstr (k, VNone) = []"
| "option_words fstr (k, VBool b) = (if b then [''--'' @ k] else [])"
| "option_words fstr (k, v) = [''--'' @ k, str_value fstr v]"

text \<open>The words expected from a whole option set: the selector field gives none.\<close>

definition expected_words :: "('f \<Rightarrow> string) \<Rightarrow> 'f namespace \<Rightarrow> string list" where
  "expected_words fstr args =
     concat (map (option_words fstr) (filter (\<lambda>(k, v). k \<noteq> ''subcommands'') args))"

text \<open>
  A character that the word splitting reads as itself outside quotes: not white space,
  not a quote, not a backslash.
\<close>

definition plain :: "char \<Rightarrow> bool" where
  "plain c = (\<not> sh_space c \<and> c \<noteq> CHR 0x5C \<and> c \<noteq> CHR 0x27 \<and> c \<noteq> CHR 0x22)"

text \<open>A concrete world for evaluation: no resume file yet, every child succeeds.\<close>

definition fresh_world :: world where
  "fresh_world = \<lparr>nfresume = None, child = (\<lambda>argv. Exited 0), events = []\<rparr>"

text \<open>The two characters that end a line for \<open>readline\<close>.\<close>

definition line_break :: "char \<Rightarrow> bool" where
  "line_break c = (c = CHR 0x0A \<or> c = CHR 0x0D)"

text \<open>
  The options of the smallest accepted \<^verbatim>\<open>run\<close> command line,
  \<^verbatim>\<open>run --refseq ref.fasta\<close>: every other option at its default.
\<close>

definition default_run :: "unit run_options" where
  "default_run =
     \<lparr>primer_bed = None, fwd_suffix = None, rev_suffix = None, refseq = ''ref.fasta'',
      ref_gbk = None, remote_pod5_location = None, file_watcher_config = None,
      pod5_staging = None, pod5_dir = None, precalled_staging = None, prepped_data = None,
      illumina_fastq_dir = None, model = None, model_cache = None, kit = None,
      pod5_batch_size = None, basecall_max = None, max_len = None, min_len = None,
      min_qual = None, secondary = False, max_mismatch = None, downsample_to = None,
      min_consensus_freq = None, min_haplo_reads = None, snpeff_cache = None,
      min_depth_coverage = None, nextclade_dataset = None, nextclade_cache = None,
      results = None, cleanup = False, resume = False, snpEff_config = None, profile = None\<rparr>"

section \<open>Properties of the run launcher\<close>

lemma endswith_suffix: "endswith s suf \<longleftrightarrow> suffix suf s"
  by (auto simp: endswith_def suffix_def) (metis append_take_drop_id)

lemma run_nextflow_resume:
  "endswith c ''-resume'' \<Longrightarrow> run_nextflow w c = (Inr (), write_resume c w)"
  by (simp add: run_nextflow_def)

lemma run_nextflow_no_resume:
  "\<not> endswith c ''-resume'' \<Longrightarrow>
     run_nextflow w c = (Inl (ValueError ''empty separator''), write_resume (c @ '' -resume'') w)"
  by (simp add: run_nextflow_def py_split_def)

lemma nfresume_run_nextflow:
  "nfresume (snd (run_nextflow w c)) = Some (if endswith c ''-resume'' then c else c @ '' -resume'')"
  by (simp add: run_nextflow_def py_split_def write_resume_def)

text \<open>
  C1. The claim: a command that does not end with \<^verbatim>\<open>-resume\<close> is split into tokens and run
  as a blocking child process. The code does not get that far: \<^verbatim>\<open>run_command.split("")\<close>
  raises \<^verbatim>\<open>ValueError: empty separator\<close> for every string, so after the resume record
  is written the launcher fails and \<^verbatim>\<open>subprocess.run\<close> is never reached. Evaluated on
  the command of the specification's scenario, in a world whose children would all succeed:
  the result is the \<^verbatim>\<open>ValueError\<close>, and the only effect is the write of the record.
\<close>

theorem run_nextflow_split_raises:
  "run_nextflow fresh_world ''nextflow run . --refseq ref.fasta'' =
     (Inl (ValueError ''empty separator''),
      \<lparr>nfresume = Some ''nextflow run . --refseq ref.fasta -resume'',
       child = (\<lambda>argv. Exited 0),
       events = [Wrote ''nextflow run . --refseq ref.fasta -resume'']\<rparr>)"
  by (simp add: run_nextflow_def endswith_def py_split_def write_resume_def fresh_world_def)

text \<open>
  C5. In every execution of \<^verbatim>\<open>run_nextflow\<close> the resume record is written before any child
  process is spawned: whatever the outcome, the file exists afterwards and holds the
  record, and the first effect the launcher adds to the world is the write of that record,
  so every later effect (a spawn included) comes after it.
\<close>

theorem record_precedes_spawn:
  "nfresume (snd (run_nextflow w c)) = Some (if endswith c ''-resume'' then c else c @ '' -resume'')
   \<and> (\<exists>later. events (snd (run_nextflow w c))
          = events w @ Wrote (if endswith c ''-resume'' then c else c @ '' -resume'') # later)"
  by (simp add: run_nextflow_def py_split_def write_resume_def)

text \<open>
  C8. Recording is idempotent: a second \<^verbatim>\<open>run_nextflow\<close> with the same command leaves the
  resume file with the content the first one left, and that content does not depend on
  what the file held before (each write replaces the content, nothing is appended).
\<close>

theorem record_idempotent:
  "nfresume (snd (run_nextflow (snd (run_nextflow w c)) c)) = nfresume (snd (run_nextflow w c))
   \<and> nfresume (snd (run_nextflow w c)) = nfresume (snd (run_nextflow w' c))"
  by (simp add: nfresume_run_nextflow)

section \<open>The resume-state store: reading the record back\<close>

lemma rev_split_while: "xs = rev (dropWhile P (rev xs)) @ rev (takeWhile P (rev xs))"
  by (metis rev_append rev_rev_ident takeWhile_dropWhile_id)

lemma list_all_takeWhile: "list_all P (takeWhile P xs)"
  by (induction xs) auto

lemma py_strip_decomp:
  "\<exists>pre post. s = pre @ py_strip s @ post \<and> list_all py_isspace pre \<and> list_all py_isspace post"
proof -
  let ?s' = "dropWhile py_isspace s"
  have a: "s = takeWhile py_isspace s @ ?s'" by simp
  have b: "?s' = py_strip s @ rev (takeWhile py_isspace (rev ?s'))"
    unfolding py_strip_def by (rule rev_split_while)
  have c: "list_all py_isspace (takeWhile py_isspace s)"
    by (rule list_all_takeWhile)
  have d: "list_all py_isspace (rev (takeWhile py_isspace (rev ?s')))"
    using list_all_takeWhile [of py_isspace "rev ?s'"] by (simp add: list_all_iff)
  from a b have "s = takeWhile py_isspace s @ py_strip s @ rev (takeWhile py_isspace (rev ?s'))"
    by metis
  with c d show ?thesis by blast
qed

lemma py_strip_ends:
  "py_strip s = [] \<or> (\<not> py_isspace (hd (py_strip s)) \<and> \<not> py_isspace (last (py_strip s)))"
proof (cases "py_strip s = []")
  case True then show ?thesis by simp
next
  case False
  let ?s' = "dropWhile py_isspace s"
  let ?t = "dropWhile py_isspace (rev ?s')"
  from False have t: "?t \<noteq> []" by (simp add: py_strip_def)
  then have "\<not> py_isspace (hd ?t)" by (rule hd_dropWhile)
  then have l: "\<not> py_isspace (last (py_strip s))"
    using t by (simp add: py_strip_def last_rev)
  from t have "rev ?s' \<noteq> []" by (metis dropWhile.simps(1))
  then have s': "?s' \<noteq> []" by simp
  then have h: "\<not> py_isspace (hd ?s')" by (rule hd_dropWhile)
  have "?s' = py_strip s @ rev (takeWhile py_isspace (rev ?s'))"
    unfolding py_strip_def by (rule rev_split_while)
  then have "hd ?s' = hd (py_strip s)" using False by (metis hd_append2)
  with h l show ?thesis by simp
qed

lemma py_isspace_LF: "py_isspace (CHR 0x0A)"
  by (simp add: py_isspace_def)

lemma py_strip_append_LF: "py_strip (xs @ [CHR 0x0A]) = py_strip xs"
proof (cases "\<forall>x\<in>set xs. py_isspace x")
  case True
  then have "\<forall>x\<in>set (xs @ [CHR 0x0A]). py_isspace x"
    using py_isspace_LF by simp
  then have "dropWhile py_isspace (xs @ [CHR 0x0A]) = []"
    by (simp only: dropWhile_eq_Nil_conv)
  moreover have "dropWhile py_isspace xs = []"
    using True by (simp only: dropWhile_eq_Nil_conv)
  ultimately show ?thesis by (simp only: py_strip_def)
next
  case False
  then have "dropWhile py_isspace (xs @ [CHR 0x0A]) = dropWhile py_isspace xs @ [CHR 0x0A]"
    by (auto simp: dropWhile_append)
  then show ?thesis using py_isspace_LF by (simp add: py_strip_def)
qed

lemma readline_takeWhile:
  "readline s = takeWhile (\<lambda>c. \<not> line_break c) s \<or> readline s = takeWhile (\<lambda>c. \<not> line_break c) s @ [CHR 0x0A]"
  by (induction s) (auto simp: line_break_def)

lemma strip_readline: "py_strip (readline s) = py_strip (takeWhile (\<lambda>c. \<not> line_break c) s)"
  using readline_takeWhile [of s] by (auto simp: py_strip_append_LF)

lemma readline_no_break: "list_all (\<lambda>c. \<not> line_break c) s \<Longrightarrow> readline s = s"
  by (induction s) (auto simp: line_break_def)

lemma py_strip_resume: "py_strip (ys @ ''-resume'') = dropWhile py_isspace ys @ ''-resume''"
proof -
  have "dropWhile py_isspace (ys @ ''-resume'') = dropWhile py_isspace ys @ ''-resume''"
    by (simp add: dropWhile_append py_isspace_def)
  then show ?thesis by (simp add: py_strip_def py_isspace_def)
qed

lemma endswith_py_strip: "endswith s ''-resume'' \<Longrightarrow> endswith (py_strip s) ''-resume''"
  by (auto simp: endswith_suffix suffix_def py_strip_resume)

lemma py_strip_id:
  assumes "s \<noteq> []" "\<not> py_isspace (hd s)" "\<not> py_isspace (last s)"
  shows "py_strip s = s"
proof -
  from assms have a: "dropWhile py_isspace s = s" by (cases s) auto
  from assms have "rev s \<noteq> []" "\<not> py_isspace (hd (rev s))" by (simp_all add: hd_rev)
  then have "dropWhile py_isspace (rev s) = rev s" by (cases "rev s") auto
  with a show ?thesis by (simp add: py_strip_def)
qed

lemma stored_last: "last (if endswith c ''-resume'' then c else c @ '' -resume'') = CHR ''e''"
  by (auto simp: endswith_suffix suffix_def)

lemmas eval_defs = generate_nextflow_command_def run_items_def quote_def
  safe_char_def safe_chars_def replace_squote_def run_nextflow_def endswith_def py_split_def
  write_resume_def fresh_world_def load_def py_strip_def py_isspace_def resume_nextflow_def
  main_def main_body_def chosen_subcommand_def

text \<open>
  C4. The read step of \<^verbatim>\<open>resume_nextflow\<close> fails with the assertion "Previous run not
  detected. Make sure you start with `oneroof run`" when \<^verbatim>\<open>.nfresume\<close> does not exist (and
  \<^verbatim>\<open>resume_nextflow\<close> ends there, the world untouched). When the file exists it returns
  the first line of the content with the surrounding white space trimmed: the text up to
  the first line break is white space, then the returned line, then white space, and the
  returned line neither begins nor ends with a white-space character.
\<close>

theorem load_first_line_trimmed:
  "load (w\<lparr>nfresume := None\<rparr>)
     = Inl (AssertionError ''Previous run not detected. Make sure you start with `oneroof run`'')
   \<and> resume_nextflow (w\<lparr>nfresume := None\<rparr>)
     = (Inl (AssertionError ''Previous run not detected. Make sure you start with `oneroof run`''),
        w\<lparr>nfresume := None\<rparr>)
   \<and> (\<exists>line pre post.
         load (w\<lparr>nfresume := Some content\<rparr>) = Inr line
         \<and> takeWhile (\<lambda>c. \<not> line_break c) content = pre @ line @ post
         \<and> list_all py_isspace pre \<and> list_all py_isspace post
         \<and> (line = [] \<or> (\<not> py_isspace (hd line) \<and> \<not> py_isspace (last line))))"
proof (intro conjI)
  let ?first = "takeWhile (\<lambda>c. \<not> line_break c) content"
  show "load (w\<lparr>nfresume := None\<rparr>)
     = Inl (AssertionError ''Previous run not detected. Make sure you start with `oneroof run`'')"
    by (simp add: load_def)
  then show "resume_nextflow (w\<lparr>nfresume := None\<rparr>)
     = (Inl (AssertionError ''Previous run not detected. Make sure you start with `oneroof run`''),
        w\<lparr>nfresume := None\<rparr>)"
    by (simp add: resume_nextflow_def)
  have l: "load (w\<lparr>nfresume := Some content\<rparr>) = Inr (py_strip ?first)"
    by (simp add: load_def strip_readline)
  obtain pre post where "?first = pre @ py_strip ?first @ post"
    "list_all py_isspace pre" "list_all py_isspace post"
    using py_strip_decomp [of ?first] by blast
  with l py_strip_ends [of ?first]
  show "\<exists>line pre post.
         load (w\<lparr>nfresume := Some content\<rparr>) = Inr line
         \<and> ?first = pre @ line @ post
         \<and> list_all py_isspace pre \<and> list_all py_isspace post
         \<and> (line = [] \<or> (\<not> py_isspace (hd line) \<and> \<not> py_isspace (last line)))"
    by blast
qed

text \<open>
  C3, as stated, fails: the record of a command is stored whole, but what \<open>load\<close> returns
  is its first line, trimmed. For the command synthesized from \<^verbatim>\<open>--refseq\<close> with a value
  that holds a line feed, the stored record has two lines and \<open>load\<close> returns the first.
\<close>

theorem load_after_record_differs:
  "nfresume (snd (run_nextflow fresh_world
       (generate_nextflow_command (\<lambda>x. [])
          (parse_command_line_args (Run (default_run\<lparr>refseq := ''a'' @ [CHR 0x0A] @ ''b''\<rparr>))))))
     = Some (''nextflow run . --refseq 'a'' @ [CHR 0x0A] @ ''b' -resume'')
   \<and> load (snd (run_nextflow fresh_world
       (generate_nextflow_command (\<lambda>x. [])
          (parse_command_line_args (Run (default_run\<lparr>refseq := ''a'' @ [CHR 0x0A] @ ''b''\<rparr>))))))
     = Inr ''nextflow run . --refseq 'a''
   \<and> ''nextflow run . --refseq 'a'' \<noteq> ''nextflow run . --refseq 'a'' @ [CHR 0x0A] @ ''b' -resume''"
  by (simp add: eval_defs default_run_def)

text \<open>
  C3, amended. Recording \<open>c\<close> stores \<open>c\<close> with \<^verbatim>\<open> -resume\<close> appended when \<open>c\<close> does not
  end with \<^verbatim>\<open>-resume\<close>, and \<open>c\<close> unchanged when it does. A \<open>load\<close> right afterwards returns
  the first line of the stored string, white space trimmed; that is the stored string itself
  whenever \<open>c\<close> is not empty, does not begin with a white-space character and holds no line
  break.
\<close>

theorem load_after_record:
  "nfresume (snd (run_nextflow w c)) = Some (if endswith c ''-resume'' then c else c @ '' -resume'')
   \<and> load (snd (run_nextflow w c))
       = Inr (py_strip (readline (if endswith c ''-resume'' then c else c @ '' -resume'')))
   \<and> (c \<noteq> [] \<and> \<not> py_isspace (hd c) \<and> list_all (\<lambda>x. \<not> line_break x) c
        \<longrightarrow> load (snd (run_nextflow w c))
             = Inr (if endswith c ''-resume'' then c else c @ '' -resume''))"
proof (intro conjI impI)
  let ?stored = "if endswith c ''-resume'' then c else c @ '' -resume''"
  show "nfresume (snd (run_nextflow w c)) = Some ?stored"
    by (rule nfresume_run_nextflow)
  then show l: "load (snd (run_nextflow w c)) = Inr (py_strip (readline ?stored))"
    by (simp add: load_def)
  assume a: "c \<noteq> [] \<and> \<not> py_isspace (hd c) \<and> list_all (\<lambda>x. \<not> line_break x) c"
  then have "list_all (\<lambda>x. \<not> line_break x) ?stored"
    by (simp add: line_break_def)
  then have r: "readline ?stored = ?stored"
    by (rule readline_no_break)
  have "\<not> py_isspace (last ?stored)"
    by (simp only: stored_last) (simp add: py_isspace_def)
  moreover from a have "?stored \<noteq> []" "\<not> py_isspace (hd ?stored)"
    by auto
  ultimately have "py_strip ?stored = ?stored"
    by (intro py_strip_id)
  with l r show "load (snd (run_nextflow w c)) = Inr ?stored"
    by simp
qed

theorem load_after_record_witness:
  "load (snd (run_nextflow fresh_world ''nextflow run . --refseq ref.fasta''))
     = Inr ''nextflow run . --refseq ref.fasta -resume''"
  using load_after_record [of fresh_world "''nextflow run . --refseq ref.fasta''"]
  by (simp add: endswith_def py_strip_def py_isspace_def line_break_def)

text \<open>
  C2, as stated, fails in its second half: \<open>load\<close> does not always return a string that
  ends with \<^verbatim>\<open>-resume\<close>. Run the program with \<^verbatim>\<open>run --refseq ref.fasta --results V --cleanup\<close>
  where \<^verbatim>\<open>V\<close> is \<^verbatim>\<open>x\<close>, a carriage return, \<^verbatim>\<open>y\<close>; then run it with \<^verbatim>\<open>resume\<close>. The read step
  returns the first line of the record only, which does not end with the indicator, and the
  resume path does not merely rewrite the file: it stores a different record and fails.
\<close>

theorem resume_load_without_indicator:
  "load (snd (main (\<lambda>x. [])
            (Run (default_run\<lparr>results := Some (''x'' @ [CHR 0x0D] @ ''y''), cleanup := True\<rparr>))
            fresh_world))
     = Inr ''nextflow run . --refseq ref.fasta --results 'x''
   \<and> endswith ''nextflow run . --refseq ref.fasta --results 'x'' ''-resume'' = False
   \<and> main (\<lambda>x. []) (Resume 0 :: unit invocation)
        (snd (main (\<lambda>x. [])
            (Run (default_run\<lparr>results := Some (''x'' @ [CHR 0x0D] @ ''y''), cleanup := True\<rparr>))
            fresh_world))
     = (Inl (ValueError ''empty separator''),
        \<lparr>nfresume = Some ''nextflow run . --refseq ref.fasta --results 'x -resume'',
         child = (\<lambda>argv. Exited 0),
         events = [Wrote (''nextflow run . --refseq ref.fasta --results 'x'' @ [CHR 0x0D]
                          @ ''y' --cleanup -resume''),
                   Wrote ''nextflow run . --refseq ref.fasta --results 'x -resume'']\<rparr>)"
  by (simp add: eval_defs default_run_def)

text \<open>
  C2, amended. For every command that ends with \<^verbatim>\<open>-resume\<close>, \<^verbatim>\<open>run_nextflow\<close> writes exactly
  that command to the resume file and returns without spawning a child process. Whenever
  the string that \<open>load\<close> returns ends with \<^verbatim>\<open>-resume\<close>, \<^verbatim>\<open>resume_nextflow\<close> spawns no
  process either: it writes the loaded string to the file and returns. And \<open>load\<close> does
  return such a string right after the record of any command without a line break.
\<close>

theorem resume_short_circuit:
  "(endswith c ''-resume''
      \<longrightarrow> run_nextflow w c = (Inr (), w\<lparr>nfresume := Some c, events := events w @ [Wrote c]\<rparr>))
   \<and> (nfresume w = Some content \<and> endswith (py_strip (readline content)) ''-resume''
      \<longrightarrow> resume_nextflow w
           = (Inr (), w\<lparr>nfresume := Some (py_strip (readline content)),
                        events := events w @ [Wrote (py_strip (readline content))]\<rparr>))
   \<and> (list_all (\<lambda>x. \<not> line_break x) c'
      \<longrightarrow> (\<exists>l. load (snd (run_nextflow w' c')) = Inr l \<and> endswith l ''-resume''))"
proof (intro conjI impI)
  assume "endswith c ''-resume''"
  then show "run_nextflow w c = (Inr (), w\<lparr>nfresume := Some c, events := events w @ [Wrote c]\<rparr>)"
    by (simp add: run_nextflow_resume write_resume_def)
next
  assume "nfresume w = Some content \<and> endswith (py_strip (readline content)) ''-resume''"
  then show "resume_nextflow w
           = (Inr (), w\<lparr>nfresume := Some (py_strip (readline content)),
                        events := events w @ [Wrote (py_strip (readline content))]\<rparr>)"
    by (simp add: resume_nextflow_def load_def run_nextflow_resume write_resume_def)
next
  let ?stored = "if endswith c' ''-resume'' then c' else c' @ '' -resume''"
  assume "list_all (\<lambda>x. \<not> line_break x) c'"
  then have "list_all (\<lambda>x. \<not> line_break x) ?stored"
    by (simp add: line_break_def)
  then have "readline ?stored = ?stored"
    by (rule readline_no_break)
  moreover have "endswith ?stored ''-resume''"
    by (auto simp: endswith_suffix suffix_def)
  ultimately have "endswith (py_strip (readline ?stored)) ''-resume''"
    by (simp only: endswith_py_strip)
  moreover have "load (snd (run_nextflow w' c')) = Inr (py_strip (readline ?stored))"
    by (simp add: load_def nfresume_run_nextflow)
  ultimately show "\<exists>l. load (snd (run_nextflow w' c')) = Inr l \<and> endswith l ''-resume''"
    by blast
qed

theorem resume_short_circuit_witness:
  "run_nextflow (fresh_world\<lparr>nfresume := Some ('' nextflow run . -resume'' @ [CHR 0x0A])\<rparr>)
       ''nextflow run . --refseq ref.fasta -resume''
     = (Inr (), \<lparr>nfresume = Some ''nextflow run . --refseq ref.fasta -resume'',
                 child = (\<lambda>argv. Exited 0),
                 events = [Wrote ''nextflow run . --refseq ref.fasta -resume'']\<rparr>)
   \<and> resume_nextflow (fresh_world\<lparr>nfresume := Some ('' nextflow run . -resume'' @ [CHR 0x0A])\<rparr>)
     = (Inr (), \<lparr>nfresume = Some ''nextflow run . -resume'',
                 child = (\<lambda>argv. Exited 0),
                 events = [Wrote ''nextflow run . -resume'']\<rparr>)
   \<and> (\<exists>l. load (snd (run_nextflow fresh_world ''nextflow run . --refseq ref.fasta'')) = Inr l
          \<and> endswith l ''-resume'')"
  using resume_short_circuit [where c = "''nextflow run . --refseq ref.fasta -resume''"
          and w = "fresh_world\<lparr>nfresume := Some ('' nextflow run . -resume'' @ [CHR 0x0A])\<rparr>"
          and content = "'' nextflow run . -resume'' @ [CHR 0x0A]"
          and c' = "''nextflow run . --refseq ref.fasta''" and w' = fresh_world]
  by (simp add: endswith_def line_break_def fresh_world_def py_strip_def py_isspace_def)

section \<open>The command synthesizer read back by the shell's word splitting\<close>

lemma safe_plain: "safe_char c \<Longrightarrow> plain c"
  by (auto simp: safe_char_def safe_chars_def plain_def sh_space_def)

lemma list_all_safe_plain: "list_all safe_char s \<Longrightarrow> list_all plain s"
  by (induction s) (auto simp: safe_plain)

lemma lex_word_plain:
  "list_all plain s \<Longrightarrow> lex InWord tok q (s @ rest) = lex InWord (tok @ s) q rest"
  by (induction s arbitrary: tok) (auto simp: plain_def)

lemma lex_blank_plain:
  "s \<noteq> [] \<Longrightarrow> list_all plain s \<Longrightarrow> lex Blank [] False (s @ rest) = lex InWord s False rest"
  using lex_word_plain [of "tl s" "[hd s]" False rest]
  by (cases s) (auto simp: plain_def)

lemma lex_single_body:
  "lex InSingle tok q (replace_squote s @ CHR 0x27 # rest) = lex InWord (tok @ s) True rest"
  by (induction s arbitrary: tok q) (auto simp: replace_squote_def sh_space_def)

lemma lex_blank_quote:
  "lex Blank [] False (quote s @ rest) = lex InWord s (s = [] \<or> \<not> list_all safe_char s) rest"
proof (cases "s = []")
  case True
  then show ?thesis by (simp add: quote_def sh_space_def)
next
  case False
  show ?thesis
  proof (cases "list_all safe_char s")
    case True
    with False show ?thesis
      by (simp add: quote_def lex_blank_plain list_all_safe_plain)
  next
    case unsafe: False
    have "lex Blank [] False (quote s @ rest) = lex InSingle [] False (replace_squote s @ CHR 0x27 # rest)"
      using False unsafe by (simp add: quote_def sh_space_def)
    also have "\<dots> = lex InWord s True rest"
      using lex_single_body [of "[]" False s rest] by simp
    finally show ?thesis using False unsafe by simp
  qed
qed

lemma lex_word_eof: "tok \<noteq> [] \<or> q \<Longrightarrow> lex InWord tok q [] = Some [tok]"
  by auto

lemma lex_word_space:
  "tok \<noteq> [] \<or> q \<Longrightarrow>
     lex InWord tok q (CHR '' '' # rest) = map_option ((#) tok) (lex Blank [] False rest)"
  by (auto simp: sh_space_def)

lemma quote_round_trip: "shlex_split (quote s) = Some [s]"
  using lex_blank_quote [of s "[]"] by (auto simp: shlex_split_def)

lemma flag_fragment_eof:
  "list_all plain k \<Longrightarrow> lex Blank [] False (''--'' @ k) = Some [''--'' @ k]"
  using lex_blank_plain [of "''--'' @ k" "[]"] by (simp add: plain_def sh_space_def)

lemma flag_fragment_space:
  "list_all plain k \<Longrightarrow>
     lex Blank [] False (''--'' @ k @ '' '' @ rest)
       = map_option ((#) (''--'' @ k)) (lex Blank [] False rest)"
  using lex_blank_plain [of "''--'' @ k" "'' '' @ rest"]
  by (simp add: plain_def sh_space_def)

lemma value_fragment_eof:
  "list_all plain k \<Longrightarrow>
     lex Blank [] False (''--'' @ k @ '' '' @ quote s) = Some [''--'' @ k, s]"
  using flag_fragment_space [of k "quote s"] lex_blank_quote [of s "[]"]
  by auto

lemma value_fragment_space:
  "list_all plain k \<Longrightarrow>
     lex Blank [] False (''--'' @ k @ '' '' @ quote s @ '' '' @ rest)
       = map_option (\<lambda>ws. (''--'' @ k) # s # ws) (lex Blank [] False rest)"
proof -
  assume k: "list_all plain k"
  have "lex Blank [] False (quote s @ '' '' @ rest)
          = map_option ((#) s) (lex Blank [] False rest)"
    using lex_blank_quote [of s "'' '' @ rest"] by (auto simp: sh_space_def)
  with flag_fragment_space [OF k, of "quote s @ '' '' @ rest"]
  show ?thesis by (simp add: option.map_comp comp_def)
qed

lemma py_join_Cons:
  "py_join sep (x # xs) = (if xs = [] then x else x @ sep @ py_join sep xs)"
  by (cases xs) simp_all

lemma lex_params:
  "\<forall>(k, v) \<in> set items. list_all plain k \<Longrightarrow>
     lex Blank [] False (py_join '' '' (nextflow_params fstr items))
       = Some (concat (map (option_words fstr) items))"
proof (induction items)
  case Nil
  then show ?case by simp
next
  case (Cons item items)
  obtain k v where item: "item = (k, v)" by (cases item)
  from Cons.prems item have k: "list_all plain k" by simp
  from Cons have IH: "lex Blank [] False (py_join '' '' (nextflow_params fstr items))
       = Some (concat (map (option_words fstr) items))" by simp
  let ?R = "nextflow_params fstr items"
  have empty: "concat (map (option_words fstr) items) = []" if "?R = []"
    using IH that by simp
  have flag: "lex Blank [] False (py_join '' '' ((''--'' @ k) # ?R))
       = Some ((''--'' @ k) # concat (map (option_words fstr) items))"
    using flag_fragment_eof [OF k] flag_fragment_space [OF k, of "py_join '' '' ?R"] IH empty
    by (simp add: py_join_Cons)
  have val: "lex Blank [] False (py_join '' '' ((''--'' @ k @ '' '' @ quote s) # ?R))
       = Some ((''--'' @ k) # s # concat (map (option_words fstr) items))" for s
    using value_fragment_eof [OF k, of s] value_fragment_space [OF k, of s "py_join '' '' ?R"] IH empty
    by (simp add: py_join_Cons)
  show ?case
    using IH flag val by (cases v) (simp_all add: item)
qed

lemma lex_header:
  "lex Blank [] False (''nextflow run . '' @ rest)
     = map_option (\<lambda>ws. ''nextflow'' # ''run'' # ''.'' # ws) (lex Blank [] False rest)"
  by (simp add: sh_space_def option.map_comp comp_def)

lemma shell_words_of_command:
  assumes "\<forall>(k, v) \<in> set args. list_all safe_char k"
  shows "shlex_split (generate_nextflow_command fstr args)
     = Some ([''nextflow'', ''run'', ''.'']
             @ concat (map (option_words fstr) (filter (\<lambda>(k, v). k \<noteq> ''subcommands'') args)))"
proof -
  let ?items = "filter (\<lambda>(k, v). k \<noteq> ''subcommands'') args"
  from assms have "\<forall>(k, v) \<in> set ?items. list_all plain k"
    by (auto simp: list_all_safe_plain)
  then have "lex Blank [] False (py_join '' '' (nextflow_params fstr ?items))
       = Some (concat (map (option_words fstr) ?items))"
    by (rule lex_params)
  then have "lex Blank [] False (''nextflow run . '' @ py_join '' '' (nextflow_params fstr ?items))
       = Some (''nextflow'' # ''run'' # ''.'' # concat (map (option_words fstr) ?items))"
    by (simp only: lex_header option.map)
  then show ?thesis
    by (simp add: shlex_split_def generate_nextflow_command_def)
qed

lemma expected_words_append:
  "expected_words fstr (xs @ ys) = expected_words fstr xs @ expected_words fstr ys"
  by (simp add: expected_words_def)

lemma shell_words_expected:
  "\<forall>(k, v) \<in> set args. list_all safe_char k \<Longrightarrow>
     shlex_split (generate_nextflow_command fstr args)
       = Some ([''nextflow'', ''run'', ''.''] @ expected_words fstr args)"
  unfolding expected_words_def by (rule shell_words_of_command)

lemma nextflow_params_append:
  "nextflow_params fstr (xs @ ys) = nextflow_params fstr xs @ nextflow_params fstr ys"
  by (induction xs) auto

lemma py_join_middle: "\<exists>p q. py_join sep (A @ f # B) = p @ f @ q"
proof (induction A)
  case Nil
  show ?case
  proof (cases B)
    case Nil
    then have "py_join sep ([] @ f # B) = [] @ f @ []" by simp
    then show ?thesis by blast
  next
    case (Cons b B')
    then have "py_join sep ([] @ f # B) = [] @ f @ (sep @ py_join sep B)" by simp
    then show ?thesis by blast
  qed
next
  case (Cons a A)
  then obtain p q where "py_join sep (A @ f # B) = p @ f @ q" by blast
  then have "py_join sep ((a # A) @ f # B) = (a @ sep @ p) @ f @ q"
    by (simp add: py_join_Cons)
  then show ?case by blast
qed

text \<open>
  C6. Take an option set whose names are made of the characters that need no quoting (as
  all declared option names are), and in it a boolean flag \<open>k\<close> other than the selector
  field. The loop appends for the flag exactly the fragment \<^verbatim>\<open>--k\<close> when its value is
  true and nothing when it is false. Read back as words, the command is the header, the
  words of the options before the flag, then the single word \<^verbatim>\<open>--k\<close> with no value word
  when the flag is true (no word at all when it is false), then the words of the options
  after it. An option whose value is \<^verbatim>\<open>None\<close>, and an option that is not in the set,
  give no word either.
\<close>

theorem flag_emits_one_word:
  assumes "\<forall>(k', v') \<in> set (pre @ post). list_all safe_char k'"
    and "list_all safe_char k" and "k \<noteq> ''subcommands''"
  shows "nextflow_params fstr (pre @ (k, VBool b) # post)
           = nextflow_params fstr pre @ (if b then [''--'' @ k] else []) @ nextflow_params fstr post
       \<and> shlex_split (generate_nextflow_command fstr (pre @ (k, VBool b) # post))
           = Some ([''nextflow'', ''run'', ''.''] @ expected_words fstr pre
                   @ (if b then [''--'' @ k] else []) @ expected_words fstr post)
       \<and> shlex_split (generate_nextflow_command fstr (pre @ (k, VNone) # post))
           = Some ([''nextflow'', ''run'', ''.''] @ expected_words fstr pre
                   @ expected_words fstr post)
       \<and> shlex_split (generate_nextflow_command fstr (pre @ post))
           = Some ([''nextflow'', ''run'', ''.''] @ expected_words fstr pre
                   @ expected_words fstr post)"
proof (intro conjI)
  show "nextflow_params fstr (pre @ (k, VBool b) # post)
           = nextflow_params fstr pre @ (if b then [''--'' @ k] else []) @ nextflow_params fstr post"
    by (simp add: nextflow_params_append)
  have here: "expected_words fstr (pre @ (k, VBool b) # post)
      = expected_words fstr pre @ (if b then [''--'' @ k] else []) @ expected_words fstr post"
    using assms(3) by (simp add: expected_words_def)
  from assms(1,2) have "\<forall>(k', v') \<in> set (pre @ (k, VBool b) # post). list_all safe_char k'"
    by auto
  then have "shlex_split (generate_nextflow_command fstr (pre @ (k, VBool b) # post))
      = Some ([''nextflow'', ''run'', ''.''] @ expected_words fstr (pre @ (k, VBool b) # post))"
    by (rule shell_words_expected)
  then show "shlex_split (generate_nextflow_command fstr (pre @ (k, VBool b) # post))
           = Some ([''nextflow'', ''run'', ''.''] @ expected_words fstr pre
                   @ (if b then [''--'' @ k] else []) @ expected_words fstr post)"
    by (simp only: here)
  have none: "expected_words fstr (pre @ (k, VNone) # post)
      = expected_words fstr pre @ expected_words fstr post"
    using assms(3) by (simp add: expected_words_def)
  from assms(1,2) have "\<forall>(k', v') \<in> set (pre @ (k, VNone) # post). list_all safe_char k'"
    by auto
  then have "shlex_split (generate_nextflow_command fstr (pre @ (k, VNone) # post))
      = Some ([''nextflow'', ''run'', ''.''] @ expected_words fstr (pre @ (k, VNone) # post))"
    by (rule shell_words_expected)
  then show "shlex_split (generate_nextflow_command fstr (pre @ (k, VNone) # post))
           = Some ([''nextflow'', ''run'', ''.''] @ expected_words fstr pre
                   @ expected_words fstr post)"
    by (simp only: none)
  from assms(1) have "shlex_split (generate_nextflow_command fstr (pre @ post))
      = Some ([''nextflow'', ''run'', ''.''] @ expected_words fstr (pre @ post))"
    by (rule shell_words_expected)
  then show "shlex_split (generate_nextflow_command fstr (pre @ post))
           = Some ([''nextflow'', ''run'', ''.''] @ expected_words fstr pre
                   @ expected_words fstr post)"
    by (simp only: expected_words_append)
qed

theorem flag_emits_one_word_witness:
  "shlex_split (generate_nextflow_command (\<lambda>x :: unit. [])
      [(''subcommands'', VStr ''run''), (''refseq'', VStr ''ref.fasta''),
       (''secondary'', VBool True), (''downsample_to'', VInt 200)])
     = Some [''nextflow'', ''run'', ''.'', ''--refseq'', ''ref.fasta'', ''--secondary'',
             ''--downsample_to'', ''200'']
   \<and> shlex_split (generate_nextflow_command (\<lambda>x :: unit. [])
      [(''subcommands'', VStr ''run''), (''refseq'', VStr ''ref.fasta''),
       (''secondary'', VNone), (''downsample_to'', VInt 200)])
     = Some [''nextflow'', ''run'', ''.'', ''--refseq'', ''ref.fasta'', ''--downsample_to'', ''200'']"
  using flag_emits_one_word [where pre = "[(''subcommands'', VStr ''run''), (''refseq'', VStr ''ref.fasta'')]"
      and k = "''secondary''" and b = True and post = "[(''downsample_to'', VInt 200)]"
      and fstr = "\<lambda>x :: unit. []"]
  by (simp add: safe_char_def safe_chars_def expected_words_def str_int_def digits.simps
        digit_char_def)

text \<open>
  C7. Take an option set whose names are made of the characters that need no quoting, and
  in it an option \<open>k\<close>, other than the selector field, whose value \<open>v\<close> is neither
  \<^verbatim>\<open>None\<close> nor a boolean. The synthesized command contains \<^verbatim>\<open>--k\<close>, a space, and the
  shell-escaped form of \<^verbatim>\<open>str(v)\<close>; splitting that escaped form as the shell does gives
  back the one word \<^verbatim>\<open>str(v)\<close>; and in the words of the whole command the word \<^verbatim>\<open>--k\<close>
  is immediately followed by the word \<^verbatim>\<open>str(v)\<close>, whatever white space, quotes or other
  shell metacharacters the value holds.
\<close>

theorem value_round_trip:
  assumes "\<forall>(k', v') \<in> set (pre @ post). list_all safe_char k'"
    and "list_all safe_char k" and "k \<noteq> ''subcommands''"
    and "v \<noteq> VNone" and "\<forall>b. v \<noteq> VBool b"
  shows "(\<exists>p q. generate_nextflow_command fstr (pre @ (k, v) # post)
                  = p @ (''--'' @ k @ '' '' @ quote (str_value fstr v)) @ q)
       \<and> shlex_split (quote (str_value fstr v)) = Some [str_value fstr v]
       \<and> shlex_split (generate_nextflow_command fstr (pre @ (k, v) # post))
           = Some ([''nextflow'', ''run'', ''.''] @ expected_words fstr pre
                   @ [''--'' @ k, str_value fstr v] @ expected_words fstr post)"
proof (intro conjI)
  let ?keep = "filter (\<lambda>(k, v). k \<noteq> ''subcommands'')"
  let ?f = "''--'' @ k @ '' '' @ quote (str_value fstr v)"
  from assms(4,5) have frag: "nextflow_params fstr ((k, v) # rest) = ?f # nextflow_params fstr rest"
    for rest by (cases v) auto
  from assms(3) have "?keep (pre @ (k, v) # post) = ?keep pre @ (k, v) # ?keep post"
    by simp
  then have "nextflow_params fstr (?keep (pre @ (k, v) # post))
      = nextflow_params fstr (?keep pre) @ ?f # nextflow_params fstr (?keep post)"
    by (simp only: nextflow_params_append frag)
  moreover obtain p q where
    "py_join '' '' (nextflow_params fstr (?keep pre) @ ?f # nextflow_params fstr (?keep post))
       = p @ ?f @ q"
    using py_join_middle by blast
  ultimately have "generate_nextflow_command fstr (pre @ (k, v) # post)
      = (''nextflow run . '' @ p) @ ?f @ q"
    by (simp add: generate_nextflow_command_def)
  then show "\<exists>p q. generate_nextflow_command fstr (pre @ (k, v) # post) = p @ ?f @ q"
    by blast
  show "shlex_split (quote (str_value fstr v)) = Some [str_value fstr v]"
    by (rule quote_round_trip)
  from assms(4,5) have "option_words fstr (k, v) = [''--'' @ k, str_value fstr v]"
    by (cases v) auto
  with assms(3) have here: "expected_words fstr (pre @ (k, v) # post)
      = expected_words fstr pre @ [''--'' @ k, str_value fstr v] @ expected_words fstr post"
    by (simp add: expected_words_def)
  from assms(1,2) have "\<forall>(k', v') \<in> set (pre @ (k, v) # post). list_all safe_char k'"
    by auto
  then have "shlex_split (generate_nextflow_command fstr (pre @ (k, v) # post))
      = Some ([''nextflow'', ''run'', ''.''] @ expected_words fstr (pre @ (k, v) # post))"
    by (rule shell_words_expected)
  then show "shlex_split (generate_nextflow_command fstr (pre @ (k, v) # post))
           = Some ([''nextflow'', ''run'', ''.''] @ expected_words fstr pre
                   @ [''--'' @ k, str_value fstr v] @ expected_words fstr post)"
    by (simp only: here)
qed

theorem value_round_trip_witness:
  "shlex_split (quote ''my ref's $HOME.fasta'') = Some [''my ref's $HOME.fasta'']
   \<and> shlex_split (generate_nextflow_command (\<lambda>x :: unit. [])
      [(''subcommands'', VStr ''run''), (''refseq'', VStr ''my ref's $HOME.fasta''),
       (''secondary'', VBool True), (''downsample_to'', VInt 200)])
     = Some [''nextflow'', ''run'', ''.'', ''--refseq'', ''my ref's $HOME.fasta'', ''--secondary'',
             ''--downsample_to'', ''200'']"
  using value_round_trip [where pre = "[(''subcommands'', VStr ''run'')]"
      and k = "''refseq''" and v = "VStr ''my ref's $HOME.fasta''"
      and post = "[(''secondary'', VBool True), (''downsample_to'', VInt 200)]"
      and fstr = "\<lambda>x :: unit. []"]
  by (simp add: safe_char_def safe_chars_def expected_words_def str_int_def digits.simps
        digit_char_def)

section \<open>The dispatcher\<close>

text \<open>
  C9. When the selected subcommand is \<^verbatim>\<open>env\<close> or \<^verbatim>\<open>validate\<close>, the process ends with
  the message that the subcommand is not yet supported and a non-zero exit status; the
  world is returned as it was, so no file is written and no child process is spawned.
\<close>

theorem stub_subcommands_exit:
  "main fstr Env w
     = (Inl (SystemExit ''The subcommand env is not yet supported but will be soon!''), w)
   \<and> main fstr Validate w
     = (Inl (SystemExit ''The subcommand validate is not yet supported but will be soon!''), w)
   \<and> exit_status (fst (main fstr Env w)) = 1
   \<and> exit_status (fst (main fstr Validate w)) = 1"
  by (simp add: main_def main_body_def chosen_subcommand_def)

lemma chosen_run_items: "chosen_subcommand (run_items r) = []"
  by (simp add: chosen_subcommand_def run_items_def)

lemma chosen_parse: "length (chosen_subcommand (parse_command_line_args sel)) = 1"
  using chosen_run_items [unfolded chosen_subcommand_def]
  by (cases sel) (simp_all add: chosen_subcommand_def)

text \<open>
  C10. Invoked with no subcommand, the parsed \<^verbatim>\<open>subcommands\<close> field is \<^verbatim>\<open>None\<close>; the list
  that main's assertion measures has exactly one element for every invocation, so the
  assertion passes; and the process leaves through the "not yet supported" branch with
  \<^verbatim>\<open>None\<close> in the message and a non-zero exit status, the world unchanged.
\<close>

theorem no_subcommand_exits:
  "parse_command_line_args (NoSubcommand :: 'f invocation) = [(''subcommands'', VNone)]
   \<and> (\<forall>sel :: 'f invocation. length (chosen_subcommand (parse_command_line_args sel)) = 1)
   \<and> main fstr (NoSubcommand :: 'f invocation) w
       = (Inl (SystemExit ''The subcommand None is not yet supported but will be soon!''), w)
   \<and> exit_status (fst (main fstr (NoSubcommand :: 'f invocation) w)) = 1"
proof (intro conjI allI)
  show "parse_command_line_args (NoSubcommand :: 'f invocation) = [(''subcommands'', VNone)]"
    by simp
  show "length (chosen_subcommand (parse_command_line_args sel)) = 1" for sel :: "'f invocation"
    by (rule chosen_parse)
  show m: "main fstr (NoSubcommand :: 'f invocation) w
       = (Inl (SystemExit ''The subcommand None is not yet supported but will be soon!''), w)"
    by (simp add: main_def main_body_def chosen_subcommand_def)
  show "exit_status (fst (main fstr (NoSubcommand :: 'f invocation) w)) = 1"
    by (simp add: m)
qed

end
